theory Spec2Isabelle
  imports Complex_Main "HOL-Library.Sublist"
begin

section \<open>Python values shared by the two loaders\<close>

text \<open>
  The exceptions the loaders can raise.  \<open>ValidationError\<close> is the name the
  specification gives to a failed check inside an annotation constructor; the
  other constructors carry the names of the Python exceptions.
\<close>

datatype error =
    FileNotFoundError
  | StopIteration
  | IndexError
  | KeyError
  | ValueError
  | TypeError
  | AttributeError
  | CsvError
  | ValidationError

text \<open>
  \<open>xs[i]\<close> on a Python list: an index past the end raises \<open>IndexError\<close>.
  Only non-negative literal indices occur in the loaders.
\<close>

definition getitem :: "'a list \<Rightarrow> nat \<Rightarrow> error + 'a" where
  "getitem xs i = (if i < length xs then Inr (xs ! i) else Inl IndexError)"

text \<open>
  One statement after another: an exception raised by the first ends the run,
  otherwise its value goes to the rest.
\<close>

definition on_success :: "error + 'a \<Rightarrow> ('a \<Rightarrow> error + 'b) \<Rightarrow> error + 'b" where
  "on_success r k = (case r of Inl e \<Rightarrow> Inl e | Inr x \<Rightarrow> k x)"

text \<open>
  \<open>float(s)\<close> on a string is Python's own parser; the loaders take it as the
  parameter \<open>pyfloat\<close>, \<open>None\<close> standing for the \<open>ValueError\<close> it raises.  Python
  floats are read as real numbers throughout.
\<close>

type_synonym pyfloat = "string \<Rightarrow> real option"

definition float_of :: "pyfloat \<Rightarrow> string \<Rightarrow> error + real" where
  "float_of pyfloat s = (case pyfloat s of None \<Rightarrow> Inl ValueError | Some x \<Rightarrow> Inr x)"

text \<open>
  \<open>csv.reader(lines, delimiter=d)\<close> is the standard library's; it is lazy, so it
  is taken as a parameter that turns the lines of the file into the sequence of
  outcomes of its iteration: a row of fields, or the error raised at that point.
\<close>

type_synonym csv_reader = "char \<Rightarrow> string list \<Rightarrow> (error + string list) list"

text \<open>
  The reader on lines that hold no quote character: the line terminator is
  dropped, a blank line gives the empty row, any other line is cut at each
  delimiter.
\<close>

fun split_on :: "char \<Rightarrow> string \<Rightarrow> string \<Rightarrow> string list" where
  "split_on d acc [] = [rev acc]"
| "split_on d acc (c # cs) =
     (if c = d then rev acc # split_on d [] cs else split_on d (c # acc) cs)"

definition chomp :: "string \<Rightarrow> string" where
  "chomp l = rev (dropWhile (\<lambda>c. c = CHR 0x0A \<or> c = CHR 0x0D) (rev l))"

definition plain_row :: "char \<Rightarrow> string \<Rightarrow> string list" where
  "plain_row d l = (if chomp l = [] then [] else split_on d [] (chomp l))"

definition plain_reader :: csv_reader where
  "plain_reader d ls = map (\<lambda>l. Inr (plain_row d l)) ls"

section \<open>TONAS: tuning frequency and MIDI conversion\<close>

text \<open>
  \<open>_midi_to_hz(midi_note, tuning_deviation)\<close>.  The base of both powers is the
  positive constant 2, so Python's \<open>**\<close> is \<open>powr\<close>.
\<close>

definition midi_to_hz :: "real \<Rightarrow> real \<Rightarrow> real" where
  "midi_to_hz midi_note tuning_deviation =
     (let tuning_frequency = 440 * (2 powr (tuning_deviation / 1200))
      in (tuning_frequency / 32) * (2 powr ((midi_note - 9) / 12)))"

text \<open>
  \<open>_load_tuning_frequency(fhandle)\<close>, on the lines of the opened notes file:
  \<open>float(next(csv.reader(fhandle, delimiter=","))[0])\<close>, then the same tuning
  formula.  \<open>next\<close> on an exhausted reader raises \<open>StopIteration\<close>.
\<close>

definition load_tuning_frequency :: "csv_reader \<Rightarrow> pyfloat \<Rightarrow> string list \<Rightarrow> error + real" where
  "load_tuning_frequency reader pyfloat fhandle =
     (case reader CHR '','' fhandle of
        [] \<Rightarrow> Inl StopIteration
      | Inl e # _ \<Rightarrow> Inl e
      | Inr row # _ \<Rightarrow>
          (case getitem row 0 of
             Inl e \<Rightarrow> Inl e
           | Inr field \<Rightarrow>
               (case float_of pyfloat field of
                  Inl e \<Rightarrow> Inl e
                | Inr cents_deviation \<Rightarrow>
                    (let tuning_frequency = 440 * (2 powr (cents_deviation / 1200))
                     in Inr tuning_frequency))))"

section \<open>Annotation records\<close>

text \<open>
  An argument of a constructor is \<open>None\<close> or a one-dimensional array of floats;
  \<open>intervals\<close> is \<open>None\<close> or an array of \<open>[start_time, end_time]\<close> rows.
\<close>

type_synonym array = "real list option"

text \<open>
  Modelled from the spec: \<open>annotations.validate_array_like\<close>, whose module is not
  among the sources.  The value must be array-like of the expected element type;
  \<open>None\<close> is not.
\<close>

definition validate_array_like :: "'a list option \<Rightarrow> error + unit" where
  "validate_array_like array_like =
     (case array_like of None \<Rightarrow> Inl ValidationError | Some _ \<Rightarrow> Inr ())"

text \<open>
  Modelled from the spec: \<open>annotations.validate_lengths_equal\<close>, whose module is
  not among the sources.  It is handed the list of arrays, here the list of their
  lengths with \<open>None\<close> kept; it fails when the lengths are not all equal, and
  \<open>None\<close> values are exempt.
\<close>

fun all_equal :: "nat list \<Rightarrow> bool" where
  "all_equal [] = True"
| "all_equal (n # ns) = list_all (\<lambda>m. m = n) ns"

definition present :: "'a option list \<Rightarrow> 'a list" where
  "present xs = concat (map (\<lambda>x. case x of None \<Rightarrow> [] | Some v \<Rightarrow> [v]) xs)"

definition validate_lengths_equal :: "nat option list \<Rightarrow> error + unit" where
  "validate_lengths_equal array_list =
     (if all_equal (present array_list) then Inr () else Inl ValidationError)"

text \<open>
  Modelled from the spec: the check on time stamps, strictly increasing and
  non-negative, and the check on intervals, each end not before its start and no
  negative time.
\<close>

definition validate_times :: "real list \<Rightarrow> error + unit" where
  "validate_times times' =
     (if sorted_wrt (<) times' \<and> list_all (\<lambda>t. 0 \<le> t) times' then Inr ()
      else Inl ValidationError)"

definition validate_intervals :: "(real \<times> real) list \<Rightarrow> error + unit" where
  "validate_intervals intervals' =
     (if list_all (\<lambda>(start_time, end_time). 0 \<le> start_time \<and> 0 \<le> end_time
                       \<and> start_time \<le> end_time) intervals'
      then Inr () else Inl ValidationError)"

text \<open>Sequencing of checks: the first one that fails raises.\<close>

definition and_then :: "error + unit \<Rightarrow> error + 'a \<Rightarrow> error + 'a" where
  "and_then check rest = (case check of Inl e \<Rightarrow> Inl e | Inr _ \<Rightarrow> rest)"

text \<open>
  Modelled from the spec: the base constructor \<open>annotations.F0Data.__init__(times,
  frequencies, confidence)\<close>, not among the sources: all arguments array-like of
  floats (the confidence may be \<open>None\<close>), all that are not \<open>None\<close> as long as
  \<open>times\<close>, \<open>times\<close> strictly increasing and non-negative.
\<close>

definition base_F0Data_init :: "array \<Rightarrow> array \<Rightarrow> array \<Rightarrow> error + unit" where
  "base_F0Data_init times' frequencies' confidence' =
     and_then (validate_array_like times')
    (and_then (validate_array_like frequencies')
    (and_then (validate_lengths_equal (map (map_option length) [times', frequencies', confidence']))
              (validate_times (the times'))))"

text \<open>
  Modelled from the spec: the base constructor \<open>annotations.NoteData.__init__(intervals,
  notes, confidence)\<close>, not among the sources: intervals well-formed, the parallel
  arrays as long as \<open>intervals\<close>.
\<close>

definition base_NoteData_init :: "(real \<times> real) list option \<Rightarrow> array \<Rightarrow> array \<Rightarrow> error + unit" where
  "base_NoteData_init intervals' notes' confidence' =
     and_then (validate_array_like intervals')
    (and_then (validate_array_like notes')
    (and_then (validate_lengths_equal
                 [map_option length intervals', map_option length notes', map_option length confidence'])
              (validate_intervals (the intervals'))))"

text \<open>The TONAS records: the base fields and the added ones.\<close>

record NoteData =
  intervals :: "(real \<times> real) list"
  notes_hz :: "real list"
  energies :: "real list"
  confidence :: array

record F0Data =
  f0_times :: "real list"
  automatic_frequencies :: "real list"
  frequencies :: "real list"
  f0_energies :: "real list"
  f0_confidence :: array

text \<open>\<open>tonas.NoteData.__init__(intervals, notes, energies, confidence=None)\<close>.\<close>

definition NoteData_init ::
  "(real \<times> real) list option \<Rightarrow> array \<Rightarrow> array \<Rightarrow> array \<Rightarrow> error + NoteData" where
  "NoteData_init intervals' notes' energies' confidence' =
     and_then (base_NoteData_init intervals' notes' confidence')
    (and_then (validate_array_like energies')
    (and_then (validate_lengths_equal
                 [map_option length intervals', map_option length notes',
                  map_option length energies', map_option length confidence'])
       (Inr \<lparr>intervals = the intervals', notes_hz = the notes', energies = the energies',
             confidence = confidence'\<rparr>)))"

text \<open>
  \<open>tonas.F0Data.__init__(times, automatic_frequencies, frequencies, energies,
  confidence=None)\<close>.
\<close>

definition F0Data_init :: "array \<Rightarrow> array \<Rightarrow> array \<Rightarrow> array \<Rightarrow> array \<Rightarrow> error + F0Data" where
  "F0Data_init times' automatic_frequencies' frequencies' energies' confidence' =
     and_then (base_F0Data_init times' frequencies' confidence')
    (and_then (validate_array_like automatic_frequencies')
    (and_then (validate_array_like energies')
    (and_then (validate_lengths_equal
                 (map (map_option length)
                    [times', automatic_frequencies', frequencies', energies', confidence']))
       (Inr \<lparr>f0_times = the times', automatic_frequencies = the automatic_frequencies',
             frequencies = the frequencies', f0_energies = the energies',
             f0_confidence = confidence'\<rparr>))))"

section \<open>TONAS: the f0 and notes parsers\<close>

text \<open>
  \<open>np.genfromtxt(fhandle)\<close> is numpy's.  Its input is given as the table of
  numbers of the file, one row per line that is not blank.  Rows of different
  widths raise \<open>ValueError\<close>; the result is squeezed, so a table of one row or of
  one column comes back one-dimensional, a single number zero-dimensional, and
  an empty file gives the empty one-dimensional array.
\<close>

datatype ndarray = Array0 real | Array1 "real list" | Array2 "real list list"

definition genfromtxt :: "real list list \<Rightarrow> error + ndarray" where
  "genfromtxt table =
     (let rows = filter (\<lambda>r. r \<noteq> []) table in
      case rows of
        [] \<Rightarrow> Inr (Array1 [])
      | r # rs \<Rightarrow>
          if \<not> list_all (\<lambda>r'. length r' = length r) rs then Inl ValueError
          else if rs = [] \<and> length r = 1 then Inr (Array0 (hd r))
          else if rs = [] then Inr (Array1 r)
          else if length r = 1 then Inr (Array1 (map hd rows))
          else Inr (Array2 rows))"

text \<open>
  Iterating over an array yields its items along the first axis: numbers for a
  one-dimensional array, rows for a two-dimensional one; a zero-dimensional
  array cannot be iterated.  Indexing a number raises \<open>IndexError\<close>.
\<close>

datatype item = Number real | Row "real list"

definition iterate :: "ndarray \<Rightarrow> error + item list" where
  "iterate a =
     (case a of
        Array0 _ \<Rightarrow> Inl TypeError
      | Array1 xs \<Rightarrow> Inr (map Number xs)
      | Array2 rows \<Rightarrow> Inr (map Row rows))"

definition item_get :: "item \<Rightarrow> nat \<Rightarrow> error + real" where
  "item_get line i = (case line of Number _ \<Rightarrow> Inl IndexError | Row r \<Rightarrow> getitem r i)"

text \<open>The five lists that the loop of \<open>load_f0\<close> appends to.\<close>

record f0_lists =
  l_times :: "real list"
  l_freqs :: "real list"
  l_freqs_corr :: "real list"
  l_energies :: "real list"
  l_confidence :: "real list"

fun load_f0_loop :: "item list \<Rightarrow> f0_lists \<Rightarrow> error + f0_lists" where
  "load_f0_loop [] acc = Inr acc"
| "load_f0_loop (line # reader) acc =
     on_success (item_get line 0) (\<lambda>x0.
     on_success (item_get line 1) (\<lambda>x1.
     on_success (item_get line 2) (\<lambda>x2.
     on_success (item_get line 3) (\<lambda>x3.
       load_f0_loop reader
         \<lparr>l_times = l_times acc @ [x0],
          l_freqs = l_freqs acc @ [x2],
          l_freqs_corr = l_freqs_corr acc @ [x3],
          l_energies = l_energies acc @ [x1],
          l_confidence = l_confidence acc @ [if x3 > 0 then 1 else 0]\<rparr>))))"

text \<open>\<open>load_f0(fhandle)\<close>, on the table of numbers of the opened file.\<close>

definition load_f0 :: "real list list \<Rightarrow> error + F0Data" where
  "load_f0 fhandle =
     (case genfromtxt fhandle of Inl e \<Rightarrow> Inl e | Inr reader \<Rightarrow>
      case iterate reader of Inl e \<Rightarrow> Inl e | Inr lines \<Rightarrow>
      case load_f0_loop lines
             \<lparr>l_times = [], l_freqs = [], l_freqs_corr = [], l_energies = [], l_confidence = []\<rparr>
      of Inl e \<Rightarrow> Inl e | Inr acc \<Rightarrow>
        F0Data_init (Some (l_times acc)) (Some (l_freqs acc)) (Some (l_freqs_corr acc))
          (Some (l_energies acc)) (Some (l_confidence acc)))"

text \<open>
  The four lists that the loop of \<open>load_notes\<close> appends to.  An interval is
  stored as \<open>[line[0], float(line[0]) + float(line[1])]\<close>, its first entry still the
  string, and \<open>np.array(intervals, dtype="float")\<close> reads it with the same \<open>float\<close>
  that has just succeeded on it; the model stores the number.
\<close>

record notes_lists =
  l_intervals :: "(real \<times> real) list"
  l_pitches :: "real list"
  l_energy :: "real list"
  l_conf :: "real list"

fun load_notes_loop ::
  "pyfloat \<Rightarrow> string \<Rightarrow> (error + string list) list \<Rightarrow> notes_lists \<Rightarrow> error + notes_lists" where
  "load_notes_loop pyfloat tuning [] acc = Inr acc"
| "load_notes_loop pyfloat tuning (Inl e # reader) acc = Inl e"
| "load_notes_loop pyfloat tuning (Inr line # reader) acc =
     on_success (getitem line 0) (\<lambda>s0.
     on_success (float_of pyfloat s0) (\<lambda>onset.
     on_success (getitem line 1) (\<lambda>s1.
     on_success (float_of pyfloat s1) (\<lambda>duration.
     on_success (getitem line 2) (\<lambda>s2.
     on_success (float_of pyfloat s2) (\<lambda>midi_note.
     on_success (float_of pyfloat tuning) (\<lambda>tuning_deviation.
     on_success (getitem line 3) (\<lambda>s3.
     on_success (float_of pyfloat s3) (\<lambda>en.
       load_notes_loop pyfloat tuning reader
         \<lparr>l_intervals = l_intervals acc @ [(onset, onset + duration)],
          l_pitches = l_pitches acc @ [midi_to_hz midi_note tuning_deviation],
          l_energy = l_energy acc @ [en],
          l_conf = l_conf acc @ [1]\<rparr>)))))))))"

text \<open>\<open>load_notes(fhandle)\<close>, on the lines of the opened file.\<close>

definition load_notes :: "csv_reader \<Rightarrow> pyfloat \<Rightarrow> string list \<Rightarrow> error + NoteData" where
  "load_notes reader pyfloat fhandle =
     (case reader CHR '','' fhandle of
        [] \<Rightarrow> Inl StopIteration
      | Inl e # _ \<Rightarrow> Inl e
      | Inr first # rest \<Rightarrow>
          (case getitem first 0 of Inl e \<Rightarrow> Inl e | Inr tuning \<Rightarrow>
           case load_notes_loop pyfloat tuning rest
                  \<lparr>l_intervals = [], l_pitches = [], l_energy = [], l_conf = []\<rparr>
           of Inl e \<Rightarrow> Inl e | Inr acc \<Rightarrow>
             NoteData_init (Some (l_intervals acc)) (Some (l_pitches acc))
               (Some (l_energy acc)) (Some (l_conf acc))))"

section \<open>Strings, paths and dictionaries\<close>

text \<open>
  \<open>s.replace(old, new)\<close>: every occurrence of \<open>old\<close>, found from the left and
  never overlapping, is replaced; an empty \<open>old\<close> matches before each character
  and at the end.
\<close>

fun replace_str :: "string \<Rightarrow> string \<Rightarrow> string \<Rightarrow> string" where
  "replace_str old new [] = (if old = [] then new else [])"
| "replace_str old new (c # cs) =
     (if old = [] then new @ c # replace_str old new cs
      else if prefix old (c # cs) then new @ replace_str old new (drop (length old - 1) cs)
      else c # replace_str old new cs)"

text \<open>\<open>s.split(sep)\<close> for a separator of one character is \<open>split_on sep []\<close>.\<close>

definition split_str :: "string \<Rightarrow> char \<Rightarrow> string list" where
  "split_str s sep = split_on sep [] s"

text \<open>
  \<open>os.path.join(a, *p)\<close> on a POSIX system: a component that starts with the
  separator discards what came before, otherwise it is appended, after a
  separator unless the path so far is empty or ends with one.
\<close>

definition join_step :: "string \<Rightarrow> string \<Rightarrow> string" where
  "join_step path b =
     (if b \<noteq> [] \<and> hd b = CHR ''/'' then b
      else if path = [] \<or> last path = CHR ''/'' then path @ b
      else path @ ''/'' @ b)"

definition os_path_join :: "string \<Rightarrow> string list \<Rightarrow> string" where
  "os_path_join a p = foldl join_step a p"

text \<open>\<open>d[k]\<close> on a dictionary raises \<open>KeyError\<close> for a missing key.\<close>

definition dict_getitem :: "('k \<rightharpoonup> 'v) \<Rightarrow> 'k \<Rightarrow> error + 'v" where
  "dict_getitem d k = (case d k of None \<Rightarrow> Inl KeyError | Some v \<Rightarrow> Inr v)"

text \<open>
  The values that \<open>json.load\<close> builds.  \<open>JNull\<close> is Python's \<open>None\<close>; a \<open>JObj\<close>
  holds the items of a dictionary in iteration order, its keys distinct.
\<close>

datatype json =
    JNull
  | JBool bool
  | JNum real
  | JStr string
  | JArr "json list"
  | JObj "(string \<times> json) list"

text \<open>\<open>d.get(k)\<close>: the stored value, \<open>None\<close> for a missing key.\<close>

definition dict_get :: "('k \<rightharpoonup> json) \<Rightarrow> 'k \<Rightarrow> json" where
  "dict_get d k = (case d k of None \<Rightarrow> JNull | Some v \<Rightarrow> v)"

section \<open>TONAS: the metadata file\<close>

record tonas_meta =
  style :: string
  title :: string
  singer :: string

text \<open>
  The loop of \<open>Dataset._metadata\<close> over the rows of the reader; an empty row is
  skipped, a row of fewer than four fields raises \<open>IndexError\<close>.
\<close>

fun metadata_loop ::
  "(error + string list) list \<Rightarrow> (string \<rightharpoonup> tonas_meta) \<Rightarrow> error + (string \<rightharpoonup> tonas_meta)" where
  "metadata_loop [] metadata = Inr metadata"
| "metadata_loop (Inl e # reader) metadata = Inl e"
| "metadata_loop (Inr line # reader) metadata =
     (if line \<noteq> [] then
        on_success (getitem line 0) (\<lambda>filename.
        let index = replace_str ''.wav'' [] filename in
        on_success (getitem line 1) (\<lambda>f1.
        on_success (getitem line 2) (\<lambda>f2.
        on_success (getitem line 3) (\<lambda>f3.
          metadata_loop reader
            (metadata(index \<mapsto> \<lparr>style = f1, title = f2, singer = f3\<rparr>))))))
      else metadata_loop reader metadata)"

text \<open>
  \<open>tonas.Dataset._metadata\<close>.  The file system maps a path to the lines of the
  text file there; a path outside its domain does not exist.  Each line goes to
  the reader with its null bytes removed; the delimiter is the tab.
\<close>

definition tonas_metadata ::
  "csv_reader \<Rightarrow> (string \<rightharpoonup> string list) \<Rightarrow> string \<Rightarrow> error + (string \<rightharpoonup> tonas_meta)" where
  "tonas_metadata reader fs data_home =
     (let metadata_path = os_path_join data_home [''TONAS-Metadata.txt''] in
      case fs metadata_path of
        None \<Rightarrow> Inl FileNotFoundError
      | Some f \<Rightarrow>
          metadata_loop (reader CHR 0x09 (map (replace_str [CHR 0x00] []) f)) Map.empty)"

section \<open>Da-TACOS\<close>

text \<open>
  The loop of \<open>da_tacos.Dataset._metadata\<close> that checks the two subset files and
  collects their paths.
\<close>

fun metadata_paths_loop ::
  "(string \<rightharpoonup> 'f) \<Rightarrow> string \<Rightarrow> string list \<Rightarrow> string list \<Rightarrow> error + string list" where
  "metadata_paths_loop fs data_home [] metadata_paths = Inr metadata_paths"
| "metadata_paths_loop fs data_home (subset' # subsets) metadata_paths =
     (let path_subset = os_path_join data_home
            [''da-tacos_metadata'', ''da-tacos_'' @ subset' @ ''_subset_metadata.json'']
      in if fs path_subset = None then Inl FileNotFoundError
         else metadata_paths_loop fs data_home subsets (metadata_paths @ [path_subset]))"

text \<open>The two inner loops, over the performances of a work and over the works.\<close>

fun performance_loop ::
  "string \<Rightarrow> string \<Rightarrow> (string \<times> json) list \<Rightarrow> (string \<rightharpoonup> json) \<Rightarrow> (string \<rightharpoonup> json)" where
  "performance_loop subset' work_id [] metadata_index = metadata_index"
| "performance_loop subset' work_id ((performance_id, v) # items) metadata_index =
     (let track_id = subset' @ ''#'' @ work_id @ ''#'' @ performance_id
      in performance_loop subset' work_id items (metadata_index(track_id \<mapsto> v)))"

fun work_loop ::
  "string \<Rightarrow> (string \<times> json) list \<Rightarrow> (string \<rightharpoonup> json) \<Rightarrow> error + (string \<rightharpoonup> json)" where
  "work_loop subset' [] metadata_index = Inr metadata_index"
| "work_loop subset' ((work_id, w) # items) metadata_index =
     (case w of
        JObj performances \<Rightarrow>
          work_loop subset' items (performance_loop subset' work_id performances metadata_index)
      | _ \<Rightarrow> Inl AttributeError)"

text \<open>
  The loop over the subsets and their paths.  \<open>json.load\<close> is the standard
  library's and is a parameter; \<open>meta.keys()\<close> raises \<open>AttributeError\<close> when the
  document is not an object.
\<close>

fun subset_loop ::
  "('f \<Rightarrow> error + json) \<Rightarrow> (string \<rightharpoonup> 'f) \<Rightarrow> (string \<times> string) list \<Rightarrow> (string \<rightharpoonup> json)
     \<Rightarrow> error + (string \<rightharpoonup> json)" where
  "subset_loop json_load fs [] metadata_index = Inr metadata_index"
| "subset_loop json_load fs ((subset', path_subset) # rest) metadata_index =
     (case fs path_subset of
        None \<Rightarrow> Inl FileNotFoundError
      | Some f \<Rightarrow>
          (case json_load f of
             Inl e \<Rightarrow> Inl e
           | Inr (JObj meta) \<Rightarrow>
               (case work_loop subset' meta metadata_index of
                  Inl e \<Rightarrow> Inl e
                | Inr metadata_index' \<Rightarrow> subset_loop json_load fs rest metadata_index')
           | Inr _ \<Rightarrow> Inl AttributeError))"

text \<open>\<open>da_tacos.Dataset._metadata\<close>.\<close>

definition da_tacos_metadata ::
  "('f \<Rightarrow> error + json) \<Rightarrow> (string \<rightharpoonup> 'f) \<Rightarrow> string \<Rightarrow> error + (string \<rightharpoonup> json)" where
  "da_tacos_metadata json_load fs data_home =
     (let subsets = [''benchmark'', ''coveranalysis''] in
      case metadata_paths_loop fs data_home subsets [] of
        Inl e \<Rightarrow> Inl e
      | Inr metadata_paths \<Rightarrow>
          subset_loop json_load fs (zip subsets metadata_paths) Map.empty)"

text \<open>
  \<open>da_tacos.Track\<close>.  The base constructor \<open>core.Track.__init__\<close> and \<open>get_path\<close>
  belong to a module that is not among the sources; they are parameters, each
  free to raise.
\<close>

record Track =
  track_id :: string
  data_home :: string
  cens_path :: "string option"
  crema_path :: "string option"
  hpcp_path :: "string option"
  key_path :: "string option"
  madmom_path :: "string option"
  mfcc_path :: "string option"
  tags_path :: "string option"
  track_subset :: string
  work_id :: string
  label :: string
  performance_id :: string

definition Track_init ::
  "(string \<Rightarrow> error + unit) \<Rightarrow> (string \<Rightarrow> error + string option) \<Rightarrow> string \<Rightarrow> string
     \<Rightarrow> error + Track" where
  "Track_init super_init get_path track_id' data_home' =
     on_success (super_init track_id') (\<lambda>_.
     on_success (get_path ''cens'') (\<lambda>cens.
     on_success (get_path ''crema'') (\<lambda>crema.
     on_success (get_path ''hpcp'') (\<lambda>hpcp.
     on_success (get_path ''key'') (\<lambda>key.
     on_success (get_path ''madmom'') (\<lambda>madmom.
     on_success (get_path ''mfcc'') (\<lambda>mfcc.
     on_success (get_path ''tags'') (\<lambda>tags.
     on_success (getitem (split_str track_id' CHR ''#'') 0) (\<lambda>subset'.
     on_success (getitem (split_str track_id' CHR ''#'') 1) (\<lambda>work_id'.
     on_success (getitem (split_str track_id' CHR ''#'') 2) (\<lambda>performance_id'.
       Inr \<lparr>track_id = track_id', data_home = data_home',
            cens_path = cens, crema_path = crema, hpcp_path = hpcp, key_path = key,
            madmom_path = madmom, mfcc_path = mfcc, tags_path = tags,
            track_subset = subset', work_id = work_id', label = work_id',
            performance_id = performance_id'\<rparr>)))))))))))"

text \<open>
  \<open>Track.is_instrumental\<close>, on the dictionary that \<open>_track_metadata\<close> gives for
  the track.  A string equals only the same string.
\<close>

definition is_instrumental :: "(string \<rightharpoonup> json) \<Rightarrow> bool" where
  "is_instrumental track_metadata = (dict_get track_metadata ''instrumental'' = JStr ''Yes'')"

text \<open>
  The feature loaders.  \<open>dd.io.load\<close> is deepdish's and is a parameter: it maps
  the name of the file to the dictionary stored there, or raises.  The argument
  is \<open>fhandle.name\<close>.
\<close>

definition load_cens :: "(string \<Rightarrow> error + (string \<rightharpoonup> 'v)) \<Rightarrow> string \<Rightarrow> error + 'v" where
  "load_cens dd_io_load name =
     (case dd_io_load name of Inl e \<Rightarrow> Inl e | Inr blob \<Rightarrow> dict_getitem blob ''chroma_cens'')"

definition load_crema :: "(string \<Rightarrow> error + (string \<rightharpoonup> 'v)) \<Rightarrow> string \<Rightarrow> error + 'v" where
  "load_crema dd_io_load name =
     (case dd_io_load name of Inl e \<Rightarrow> Inl e | Inr blob \<Rightarrow> dict_getitem blob ''crema'')"

definition load_hpcp :: "(string \<Rightarrow> error + (string \<rightharpoonup> 'v)) \<Rightarrow> string \<Rightarrow> error + 'v" where
  "load_hpcp dd_io_load name =
     (case dd_io_load name of Inl e \<Rightarrow> Inl e | Inr blob \<Rightarrow> dict_getitem blob ''hpcp'')"

definition load_key :: "(string \<Rightarrow> error + (string \<rightharpoonup> 'v)) \<Rightarrow> string \<Rightarrow> error + 'v" where
  "load_key dd_io_load name =
     (case dd_io_load name of Inl e \<Rightarrow> Inl e | Inr blob \<Rightarrow> dict_getitem blob ''key_extractor'')"

definition load_madmom :: "(string \<Rightarrow> error + (string \<rightharpoonup> 'v)) \<Rightarrow> string \<Rightarrow> error + 'v" where
  "load_madmom dd_io_load name =
     (case dd_io_load name of Inl e \<Rightarrow> Inl e | Inr blob \<Rightarrow> dict_getitem blob ''madmom_features'')"

definition load_mfcc :: "(string \<Rightarrow> error + (string \<rightharpoonup> 'v)) \<Rightarrow> string \<Rightarrow> error + 'v" where
  "load_mfcc dd_io_load name =
     (case dd_io_load name of Inl e \<Rightarrow> Inl e | Inr blob \<Rightarrow> dict_getitem blob ''mfcc_htk'')"

definition load_tags :: "(string \<Rightarrow> error + (string \<rightharpoonup> 'v)) \<Rightarrow> string \<Rightarrow> error + 'v" where
  "load_tags dd_io_load name =
     (case dd_io_load name of Inl e \<Rightarrow> Inl e | Inr blob \<Rightarrow> dict_getitem blob ''tags'')"

section \<open>Properties\<close>

subsection \<open>Tuning frequency and MIDI conversion\<close>

lemma two_powr_5: "(2::real) powr 5 = 32"
proof -
  have "(2::real) powr (real 5) = 2 ^ 5"
    by (rule powr_realpow) simp
  then show ?thesis by simp
qed

lemma two_powr_4: "(2::real) powr 4 = 16"
proof -
  have "(2::real) powr (real 4) = 2 ^ 4"
    by (rule powr_realpow) simp
  then show ?thesis by simp
qed

lemma midi_to_hz_a4: "midi_to_hz 69 c = 440 * 2 powr (c / 1200)"
  by (simp add: midi_to_hz_def Let_def two_powr_5)

text \<open>
  C1.  \<open>_midi_to_hz(m, c)\<close> is \<open>(tuning_freq / 32) * 2 ^ ((m - 9) / 12)\<close> with
  \<open>tuning_freq = 440 * 2 ^ (c / 1200)\<close>; MIDI note 69 is mapped to \<open>tuning_freq\<close>
  itself, so that \<open>midi_to_hz(69, 0) = 440\<close>, \<open>midi_to_hz(69, 1200) = 880\<close> and
  \<open>midi_to_hz(57, 0) = 220\<close>; and \<open>_load_tuning_frequency\<close>, on a notes file whose
  first row starts with a field that \<open>float\<close> reads as \<open>c\<close>, returns the same
  \<open>tuning_freq\<close>.
\<close>

theorem midi_to_hz_tuning:
  "midi_to_hz m c = (440 * 2 powr (c / 1200) / 32) * 2 powr ((m - 9) / 12)
   \<and> midi_to_hz 69 c = 440 * 2 powr (c / 1200)
   \<and> midi_to_hz 69 0 = 440
   \<and> midi_to_hz 69 1200 = 880
   \<and> midi_to_hz 57 0 = 220
   \<and> (reader CHR '','' fhandle = Inr (field # others) # rest \<and> pyfloat field = Some c
        \<longrightarrow> load_tuning_frequency reader pyfloat fhandle = Inr (440 * 2 powr (c / 1200)))"
proof (intro conjI impI)
  show "midi_to_hz m c = (440 * 2 powr (c / 1200) / 32) * 2 powr ((m - 9) / 12)"
    by (simp add: midi_to_hz_def Let_def)
  show "midi_to_hz 69 c = 440 * 2 powr (c / 1200)"
    by (rule midi_to_hz_a4)
  show "midi_to_hz 69 0 = 440"
    by (simp add: midi_to_hz_a4)
  show "midi_to_hz 69 1200 = 880"
    by (simp add: midi_to_hz_a4)
  show "midi_to_hz 57 0 = 220"
    by (simp add: midi_to_hz_def Let_def two_powr_4)
next
  assume "reader CHR '','' fhandle = Inr (field # others) # rest \<and> pyfloat field = Some c"
  then show "load_tuning_frequency reader pyfloat fhandle = Inr (440 * 2 powr (c / 1200))"
    by (simp add: load_tuning_frequency_def getitem_def float_of_def Let_def)
qed

theorem midi_to_hz_tuning_witness:
  "plain_reader CHR '','' [''1200'', ''0.5,0.25,60,0.1'']
     = Inr [''1200''] # [Inr [''0.5'', ''0.25'', ''60'', ''0.1'']]
   \<and> load_tuning_frequency plain_reader (map_of [(''1200'', 1200)])
        [''1200'', ''0.5,0.25,60,0.1''] = Inr 880"
proof -
  have r: "plain_reader CHR '','' [''1200'', ''0.5,0.25,60,0.1'']
     = Inr [''1200''] # [Inr [''0.5'', ''0.25'', ''60'', ''0.1'']]"
    by (simp add: plain_reader_def plain_row_def chomp_def)
  have p: "map_of [(''1200'', 1200::real)] ''1200'' = Some 1200"
    by simp
  from midi_to_hz_tuning [of 69 1200 plain_reader "[''1200'', ''0.5,0.25,60,0.1'']"
      "''1200''" "[]" "[Inr [''0.5'', ''0.25'', ''60'', ''0.1'']]" "map_of [(''1200'', 1200)]"]
    r p
  show ?thesis by simp
qed

subsection \<open>The annotation constructors\<close>

lemma present_simps:
  "present [] = []" "present (None # xs) = present xs" "present (Some x # xs) = x # present xs"
  by (simp_all add: present_def)

lemmas init_defs = F0Data_init_def base_F0Data_init_def NoteData_init_def base_NoteData_init_def
  and_then_def validate_array_like_def validate_lengths_equal_def validate_times_def
  validate_intervals_def

lemma F0Data_init_Inr:
  "F0Data_init t a f e c = Inr d \<Longrightarrow>
   \<exists>ts as fs es. t = Some ts \<and> a = Some as \<and> f = Some fs \<and> e = Some es
        \<and> length as = length ts \<and> length fs = length ts \<and> length es = length ts
        \<and> (\<forall>cs. c = Some cs \<longrightarrow> length cs = length ts)"
    by (auto simp: init_defs present_simps split: option.splits if_splits sum.splits)

lemma F0Data_init_Inl: "F0Data_init t a f e c = Inl err \<Longrightarrow> err = ValidationError"
    by (auto simp: init_defs present_simps split: option.splits if_splits sum.splits)

lemma F0Data_init_mismatch:
  assumes "x \<in> set (present [t, a, f, e, c])" "y \<in> set (present [t, a, f, e, c])"
        "length x \<noteq> length y"
  shows "F0Data_init t a f e c = Inl ValidationError"
proof (cases "F0Data_init t a f e c")
  case (Inl err)
  then show ?thesis using F0Data_init_Inl by blast
next
  case (Inr d)
  from F0Data_init_Inr [OF Inr] obtain ts as fs es where
    *: "t = Some ts" "a = Some as" "f = Some fs" "e = Some es"
       "length as = length ts" "length fs = length ts" "length es = length ts"
       "\<forall>cs. c = Some cs \<longrightarrow> length cs = length ts"
    by blast
  have "\<forall>z \<in> set (present [t, a, f, e, c]). length z = length ts"
    using * by (cases c) (auto simp: present_simps)
  with assms show ?thesis by auto
qed


lemma NoteData_init_Inr:
  "NoteData_init i n e c = Inr d \<Longrightarrow>
   \<exists>ivs ns es. i = Some ivs \<and> n = Some ns \<and> e = Some es
        \<and> (\<forall>(s, t) \<in> set ivs. 0 \<le> s \<and> 0 \<le> t \<and> s \<le> t)
        \<and> length ns = length ivs \<and> length es = length ivs
        \<and> (\<forall>cs. c = Some cs \<longrightarrow> length cs = length ivs)"
  by (auto simp: init_defs present_simps list_all_iff split: option.splits if_splits sum.splits)

lemma NoteData_init_Inl: "NoteData_init i n e c = Inl err \<Longrightarrow> err = ValidationError"
  by (auto simp: init_defs present_simps split: option.splits if_splits sum.splits)

lemma NoteData_init_valid:
  assumes "\<forall>(s, t) \<in> set ivs. 0 \<le> s \<and> 0 \<le> t \<and> s \<le> t"
    "length ns = length ivs" "length es = length ivs" "\<forall>cs. c = Some cs \<longrightarrow> length cs = length ivs"
  shows "NoteData_init (Some ivs) (Some ns) (Some es) c
     = Inr \<lparr>intervals = ivs, notes_hz = ns, energies = es, confidence = c\<rparr>"
  using assms by (cases c) (auto simp: init_defs present_simps list_all_iff)

lemma F0Data_init_valid:
  assumes "sorted_wrt (<) ts" "\<forall>u \<in> set ts. 0 \<le> u"
    "length as = length ts" "length fs = length ts" "length es = length ts"
    "\<forall>cs. c = Some cs \<longrightarrow> length cs = length ts"
  shows "F0Data_init (Some ts) (Some as) (Some fs) (Some es) c
     = Inr \<lparr>f0_times = ts, automatic_frequencies = as, frequencies = fs,
             f0_energies = es, f0_confidence = c\<rparr>"
  using assms by (cases c) (auto simp: init_defs present_simps list_all_iff)

subsection \<open>The f0 parser\<close>

lemma load_f0_loop_rows:
  "load_f0_loop (map (\<lambda>(t, e, a, c). Row [t, e, a, c]) q) acc
     = Inr \<lparr>l_times = l_times acc @ map (\<lambda>(t, e, a, c). t) q,
             l_freqs = l_freqs acc @ map (\<lambda>(t, e, a, c). a) q,
             l_freqs_corr = l_freqs_corr acc @ map (\<lambda>(t, e, a, c). c) q,
             l_energies = l_energies acc @ map (\<lambda>(t, e, a, c). e) q,
             l_confidence = l_confidence acc @ map (\<lambda>(t, e, a, c). if c > 0 then 1 else 0) q\<rparr>"
proof (induction q arbitrary: acc)
  case Nil
  then show ?case by simp
next
  case (Cons r q)
  obtain t e a c where r: "r = (t, e, a, c)" by (cases r) auto
  show ?case
    by (simp add: r Cons.IH on_success_def item_get_def getitem_def)
qed

lemma genfromtxt_rows:
  assumes "2 \<le> length q"
  shows "genfromtxt (map (\<lambda>(t, e, a, c). [t, e, a, c]) q)
     = Inr (Array2 (map (\<lambda>(t, e, a, c). [t, e, a, c]) q))"
proof -
  obtain r1 r2 q' where q: "q = r1 # r2 # q'"
    using assms by (cases q; cases "tl q") auto
  have f: "filter (\<lambda>r. r \<noteq> []) (map (\<lambda>(t, e, a, c). [t, e, a, c]) q')
      = map (\<lambda>(t, e, a, c). [t, e, a, c]) q'" for q' :: "(real \<times> real \<times> real \<times> real) list"
    by (induction q') auto
  have l: "list_all (\<lambda>r'. length r' = Suc (Suc (Suc (Suc 0)))) (map (\<lambda>(t, e, a, c). [t, e, a, c]) q')"
    for q' :: "(real \<times> real \<times> real \<times> real) list"
    by (auto simp: list_all_iff)
  show ?thesis
    using f [of q'] l [of q']
    by (simp add: genfromtxt_def q split_beta Let_def)
qed

lemma load_f0_rows:
  assumes "2 \<le> length q" "sorted_wrt (<) (map (\<lambda>(t, e, a, c). t) q)"
    "\<forall>(t, e, a, c) \<in> set q. 0 \<le> t"
  shows "load_f0 (map (\<lambda>(t, e, a, c). [t, e, a, c]) q)
     = Inr \<lparr>f0_times = map (\<lambda>(t, e, a, c). t) q,
             automatic_frequencies = map (\<lambda>(t, e, a, c). a) q,
             frequencies = map (\<lambda>(t, e, a, c). c) q,
             f0_energies = map (\<lambda>(t, e, a, c). e) q,
             f0_confidence = Some (map (\<lambda>(t, e, a, c). if c > 0 then 1 else 0) q)\<rparr>"
proof -
  define rows where "rows = map (\<lambda>(t, e, a, c). [t, e, a, c]) q"
  have g: "genfromtxt rows = Inr (Array2 rows)"
    unfolding rows_def by (rule genfromtxt_rows [OF assms(1)])
  have i: "iterate (Array2 rows) = Inr (map Row rows)"
    by (simp add: iterate_def)
  have m: "map Row rows = map (\<lambda>(t, e, a, c). Row [t, e, a, c]) q"
    by (simp add: rows_def split_beta)
  have v: "\<forall>u \<in> set (map (\<lambda>(t, e, a, c). t) q). 0 \<le> u"
    using assms(3) by auto
  have "load_f0 rows = Inr \<lparr>f0_times = map (\<lambda>(t, e, a, c). t) q,
             automatic_frequencies = map (\<lambda>(t, e, a, c). a) q,
             frequencies = map (\<lambda>(t, e, a, c). c) q,
             f0_energies = map (\<lambda>(t, e, a, c). e) q,
             f0_confidence = Some (map (\<lambda>(t, e, a, c). if c > 0 then 1 else 0) q)\<rparr>"
    by (simp add: load_f0_def g i m load_f0_loop_rows F0Data_init_valid [OF assms(2) v])
  then show ?thesis by (simp only: rows_def)
qed

lemma load_f0_one_row: "load_f0 [[t, e, a, c]] = Inl IndexError"
  by (simp add: load_f0_def genfromtxt_def iterate_def on_success_def item_get_def)

text \<open>
  C2.  \<open>load_f0\<close> is to return, for every well-formed f0 file, the record of its
  columns with the confidence derived from the corrected frequency.  On a file
  of a single row it does not: \<open>np.genfromtxt\<close> hands back a one-dimensional
  array, the loop then runs over numbers, and \<open>line[0]\<close> raises \<open>IndexError\<close>.
  Files of two rows or more are read as the claim says (\<open>load_f0_rows\<close>,
  \<open>load_f0_example\<close>).
\<close>

theorem load_f0_single_row: "load_f0 [[0, 1 / 10, 100, 100]] = Inl IndexError"
  by (simp add: load_f0_def genfromtxt_def iterate_def on_success_def item_get_def)

lemma load_f0_example:
  "load_f0 [[0, 1 / 10, 100, 0], [1, 1 / 5, 110, 5], [2, 1 / 5, 110, - 1], [3, 1 / 5, 110, 16 / 5]]
     = Inr \<lparr>f0_times = [0, 1, 2, 3], automatic_frequencies = [100, 110, 110, 110],
             frequencies = [0, 5, - 1, 16 / 5], f0_energies = [1 / 10, 1 / 5, 1 / 5, 1 / 5],
             f0_confidence = Some [0, 1, 0, 1]\<rparr>"
  using load_f0_rows [of "[(0, 1 / 10, 100, 0), (1, 1 / 5, 110, 5), (2, 1 / 5, 110, - 1), (3, 1 / 5, 110, 16 / 5)]"]
  by simp


subsection \<open>Length and interval checks\<close>

text \<open>
  C4.  Constructing a TONAS \<open>F0Data\<close> succeeds only if all five arguments that
  are not \<open>None\<close> have the same length; it raises \<open>ValidationError\<close> as soon as
  two arguments that are not \<open>None\<close> differ in length; and a \<open>None\<close> confidence
  takes no part in the comparison: four arrays of one length, with valid time
  stamps, are accepted without it.
\<close>

theorem F0Data_init_lengths:
  "(F0Data_init t a f e c = Inr d \<longrightarrow>
      (\<exists>ts as fs es. t = Some ts \<and> a = Some as \<and> f = Some fs \<and> e = Some es
        \<and> length as = length ts \<and> length fs = length ts \<and> length es = length ts
        \<and> (\<forall>cs. c = Some cs \<longrightarrow> length cs = length ts)))
   \<and> (x \<in> set (present [t, a, f, e, c]) \<and> y \<in> set (present [t, a, f, e, c])
        \<and> length x \<noteq> length y \<longrightarrow> F0Data_init t a f e c = Inl ValidationError)
   \<and> (sorted_wrt (<) ts' \<and> (\<forall>u \<in> set ts'. 0 \<le> u)
        \<and> length as' = length ts' \<and> length fs' = length ts' \<and> length es' = length ts' \<longrightarrow>
        F0Data_init (Some ts') (Some as') (Some fs') (Some es') None
          = Inr \<lparr>f0_times = ts', automatic_frequencies = as', frequencies = fs',
                 f0_energies = es', f0_confidence = None\<rparr>)"
  using F0Data_init_Inr [of t a f e c d] F0Data_init_mismatch [of x t a f e c y]
    F0Data_init_valid [of ts' as' fs' es' None]
  by blast

theorem F0Data_init_lengths_witness:
  "F0Data_init (Some [0, 1]) (Some [5, 6]) (Some [7, 8]) (Some [1, 2]) (Some [1, 0])
     = Inr \<lparr>f0_times = [0, 1], automatic_frequencies = [5, 6], frequencies = [7, 8],
             f0_energies = [1, 2], f0_confidence = Some [1, 0]\<rparr>
   \<and> F0Data_init (Some [0, 1]) (Some [5]) (Some [7, 8]) (Some [1, 2]) None = Inl ValidationError
   \<and> F0Data_init (Some [0, 1]) (Some [5, 6]) (Some [7, 8]) (Some [1, 2]) None
     = Inr \<lparr>f0_times = [0, 1], automatic_frequencies = [5, 6], frequencies = [7, 8],
             f0_energies = [1, 2], f0_confidence = None\<rparr>"
proof (intro conjI)
  show "F0Data_init (Some [0, 1]) (Some [5, 6]) (Some [7, 8]) (Some [1, 2]) (Some [1, 0])
     = Inr \<lparr>f0_times = [0, 1], automatic_frequencies = [5, 6], frequencies = [7, 8],
             f0_energies = [1, 2], f0_confidence = Some [1, 0]\<rparr>"
    by (simp add: init_defs present_simps)
  show "F0Data_init (Some [0, 1]) (Some [5]) (Some [7, 8]) (Some [1, 2]) None = Inl ValidationError"
    using F0Data_init_lengths [where t = "Some [0, 1]" and a = "Some [5]" and f = "Some [7, 8]"
        and e = "Some [1, 2]" and c = None and x = "[0, 1]" and y = "[5]"]
    by (simp add: present_simps)
  show "F0Data_init (Some [0, 1]) (Some [5, 6]) (Some [7, 8]) (Some [1, 2]) None
     = Inr \<lparr>f0_times = [0, 1], automatic_frequencies = [5, 6], frequencies = [7, 8],
             f0_energies = [1, 2], f0_confidence = None\<rparr>"
    using F0Data_init_lengths [where ts' = "[0, 1]" and as' = "[5, 6]" and fs' = "[7, 8]"
        and es' = "[1, 2]"]
    by simp
qed

lemma NoteData_init_bad_interval:
  assumes "(s, t) \<in> set ivs" "t < s"
  shows "NoteData_init (Some ivs) n e c = Inl ValidationError"
proof (cases "NoteData_init (Some ivs) n e c")
  case (Inl err)
  then show ?thesis using NoteData_init_Inl by blast
next
  case (Inr d)
  from NoteData_init_Inr [OF Inr] assms show ?thesis by fastforce
qed

lemma NoteData_init_mismatch:
  assumes "x \<in> set (present [map_option length i, map_option length n, map_option length e,
             map_option length c])"
    "y \<in> set (present [map_option length i, map_option length n, map_option length e,
             map_option length c])"
    "x \<noteq> y"
  shows "NoteData_init i n e c = Inl ValidationError"
proof (cases "NoteData_init i n e c")
  case (Inl err)
  then show ?thesis using NoteData_init_Inl by blast
next
  case (Inr d)
  from NoteData_init_Inr [OF Inr] obtain ivs ns es where
    *: "i = Some ivs" "n = Some ns" "e = Some es"
       "length ns = length ivs" "length es = length ivs"
       "\<forall>cs. c = Some cs \<longrightarrow> length cs = length ivs"
    by blast
  have **: "\<forall>z \<in> set (present [map_option length i, map_option length n, map_option length e,
             map_option length c]). z = length ivs"
    using * by (cases c) (auto simp: present_simps)
  have "x = length ivs" "y = length ivs"
    using ** assms(1,2) by blast+
  with assms(3) show ?thesis by simp
qed

text \<open>
  C5.  Constructing a TONAS \<open>NoteData\<close> succeeds only if every interval has
  non-negative times with its end not before its start and every argument that
  is not \<open>None\<close> is as long as \<open>intervals\<close>; it raises \<open>ValidationError\<close> when some
  interval ends before it starts or when two lengths differ; and arguments that
  pass these checks are accepted.
\<close>

theorem NoteData_init_checks:
  "(NoteData_init i n e c = Inr d \<longrightarrow>
      (\<exists>ivs ns es. i = Some ivs \<and> n = Some ns \<and> e = Some es
        \<and> (\<forall>(s, t) \<in> set ivs. 0 \<le> s \<and> 0 \<le> t \<and> s \<le> t)
        \<and> length ns = length ivs \<and> length es = length ivs
        \<and> (\<forall>cs. c = Some cs \<longrightarrow> length cs = length ivs)))
   \<and> ((s, t) \<in> set ivs' \<and> t < s \<longrightarrow> NoteData_init (Some ivs') n e c = Inl ValidationError)
   \<and> (x \<in> set (present [map_option length i, map_option length n, map_option length e,
                          map_option length c])
        \<and> y \<in> set (present [map_option length i, map_option length n, map_option length e,
                          map_option length c])
        \<and> x \<noteq> y \<longrightarrow> NoteData_init i n e c = Inl ValidationError)
   \<and> ((\<forall>(s, t) \<in> set ivs'. 0 \<le> s \<and> 0 \<le> t \<and> s \<le> t)
        \<and> length ns' = length ivs' \<and> length es' = length ivs'
        \<and> (\<forall>cs. c = Some cs \<longrightarrow> length cs = length ivs') \<longrightarrow>
        NoteData_init (Some ivs') (Some ns') (Some es') c
          = Inr \<lparr>intervals = ivs', notes_hz = ns', energies = es', confidence = c\<rparr>)"
  using NoteData_init_Inr [of i n e c d] NoteData_init_bad_interval [of s t ivs' n e c]
    NoteData_init_mismatch [of x i n e c y] NoteData_init_valid [of ivs' ns' es' c]
  by blast

theorem NoteData_init_checks_witness:
  "NoteData_init (Some [(0, 1), (2, 1)]) (Some [440, 220]) (Some [1, 2]) None = Inl ValidationError
   \<and> NoteData_init (Some [(0, 1), (1, 2)]) (Some [440]) (Some [1, 2]) None = Inl ValidationError
   \<and> NoteData_init (Some [(0, 1), (1, 2)]) (Some [440, 220]) (Some [1, 2]) (Some [1, 1])
     = Inr \<lparr>intervals = [(0, 1), (1, 2)], notes_hz = [440, 220], energies = [1, 2],
             confidence = Some [1, 1]\<rparr>"
proof (intro conjI)
  show "NoteData_init (Some [(0, 1), (2, 1)]) (Some [440, 220]) (Some [1, 2]) None
      = Inl ValidationError"
    using NoteData_init_checks [where ivs' = "[(0, 1), (2, 1)]" and s = 2 and t = 1
        and n = "Some [440, 220]" and e = "Some [1, 2]" and c = None]
    by simp
  show "NoteData_init (Some [(0, 1), (1, 2)]) (Some [440]) (Some [1, 2]) None = Inl ValidationError"
    using NoteData_init_checks [where i = "Some [(0, 1), (1, 2)]" and n = "Some [440]"
        and e = "Some [1, 2]" and c = None and x = 2 and y = 1]
    by (simp add: present_simps)
  show "NoteData_init (Some [(0, 1), (1, 2)]) (Some [440, 220]) (Some [1, 2]) (Some [1, 1])
     = Inr \<lparr>intervals = [(0, 1), (1, 2)], notes_hz = [440, 220], energies = [1, 2],
             confidence = Some [1, 1]\<rparr>"
    using NoteData_init_checks [where ivs' = "[(0, 1), (1, 2)]" and ns' = "[440, 220]"
        and es' = "[1, 2]" and c = "Some [1, 1]"]
    by simp
qed

subsection \<open>The notes parser\<close>

lemma load_notes_loop_rows:
  assumes "list_all2 (\<lambda>line (onset, dur, midi, en). 4 \<le> length line
              \<and> pyfloat (line ! 0) = Some onset \<and> pyfloat (line ! 1) = Some dur
              \<and> pyfloat (line ! 2) = Some midi \<and> pyfloat (line ! 3) = Some en) lines vals"
    and "pyfloat tuning = Some c"
  shows "load_notes_loop pyfloat tuning (map Inr lines) acc
     = Inr \<lparr>l_intervals = l_intervals acc @ map (\<lambda>(onset, dur, midi, en). (onset, onset + dur)) vals,
             l_pitches = l_pitches acc @ map (\<lambda>(onset, dur, midi, en). midi_to_hz midi c) vals,
             l_energy = l_energy acc @ map (\<lambda>(onset, dur, midi, en). en) vals,
             l_conf = l_conf acc @ map (\<lambda>_. 1) vals\<rparr>"
  using assms(1)
proof (induction lines vals arbitrary: acc rule: list_all2_induct)
  case Nil
  then show ?case by simp
next
  case (Cons line lines v vals)
  obtain onset dur midi en where v: "v = (onset, dur, midi, en)" by (cases v) auto
  from Cons.hyps(1) have l: "4 \<le> length line"
    "pyfloat (line ! 0) = Some onset" "pyfloat (line ! 1) = Some dur"
    "pyfloat (line ! 2) = Some midi" "pyfloat (line ! 3) = Some en"
    by (simp_all add: v)
  from l(1) have g: "0 < length line" "1 < length line" "2 < length line" "3 < length line"
    by auto
  show ?case
    using l(2-) assms(2) g
    by (simp add: v Cons.IH on_success_def getitem_def float_of_def)
qed

lemma midi_to_hz_a3: "midi_to_hz 57 0 = 220"
  by (simp add: midi_to_hz_def Let_def two_powr_4)

lemma midi_to_hz_a3_octave: "midi_to_hz 57 1200 = 440"
  by (simp add: midi_to_hz_def Let_def two_powr_4)

text \<open>
  C3.  On a well-formed notes file \<open>load_notes\<close> reads the first field of the
  first row as the cents deviation \<open>c\<close> and turns every further row \<open>[onset_time,
  duration, midi_note, energy]\<close> into the interval \<open>[onset_time, onset_time +
  duration]\<close>, the frequency \<open>(tuning_freq / 32) * 2 ^ ((midi_note - 9) / 12)\<close> with
  \<open>tuning_freq = 440 * 2 ^ (c / 1200)\<close>, the energy, and the confidence 1.
  Well-formed: every field is read by \<open>float\<close>, no onset and no duration is
  negative.
\<close>

theorem load_notes_records:
  assumes "reader CHR '','' fhandle = Inr (tuning # others) # map Inr lines"
    and "pyfloat tuning = Some c"
    and "list_all2 (\<lambda>line (onset, dur, midi, en). 4 \<le> length line
              \<and> pyfloat (line ! 0) = Some onset \<and> pyfloat (line ! 1) = Some dur
              \<and> pyfloat (line ! 2) = Some midi \<and> pyfloat (line ! 3) = Some en) lines vals"
    and "\<forall>(onset, dur, midi, en) \<in> set vals. 0 \<le> onset \<and> 0 \<le> dur"
  shows "load_notes reader pyfloat fhandle
     = Inr \<lparr>intervals = map (\<lambda>(onset, dur, midi, en). (onset, onset + dur)) vals,
             notes_hz = map (\<lambda>(onset, dur, midi, en).
                 (440 * 2 powr (c / 1200) / 32) * 2 powr ((midi - 9) / 12)) vals,
             energies = map (\<lambda>(onset, dur, midi, en). en) vals,
             confidence = Some (map (\<lambda>_. 1) vals)\<rparr>"
proof -
  have iv: "\<forall>(s, t) \<in> set (map (\<lambda>(onset, dur, midi, en). (onset, onset + dur)) vals).
      0 \<le> s \<and> 0 \<le> t \<and> s \<le> t"
    using assms(4) by auto
  have hz: "map (\<lambda>(onset, dur, midi, en). midi_to_hz midi c) vals
      = map (\<lambda>(onset, dur, midi, en).
                 (440 * 2 powr (c / 1200) / 32) * 2 powr ((midi - 9) / 12)) vals"
    by (simp only: midi_to_hz_def Let_def)
  have "load_notes reader pyfloat fhandle
     = Inr \<lparr>intervals = map (\<lambda>(onset, dur, midi, en). (onset, onset + dur)) vals,
             notes_hz = map (\<lambda>(onset, dur, midi, en). midi_to_hz midi c) vals,
             energies = map (\<lambda>(onset, dur, midi, en). en) vals,
             confidence = Some (map (\<lambda>_. 1) vals)\<rparr>"
    by (simp add: load_notes_def assms(1) getitem_def
        load_notes_loop_rows [OF assms(3) assms(2)] NoteData_init_valid [OF iv])
  then show ?thesis by (simp only: hz)
qed

theorem load_notes_records_witness:
  "load_notes plain_reader
     (map_of [(''1200'', 1200), (''0.5'', 1 / 2), (''0.25'', 1 / 4), (''69'', 69),
              (''0.1'', 1 / 10), (''1'', 1), (''57'', 57), (''0.2'', 1 / 5)])
     [''1200'', ''0.5,0.25,69,0.1'', ''1,0.5,57,0.2'']
   = Inr \<lparr>intervals = [(1 / 2, 3 / 4), (1, 3 / 2)], notes_hz = [880, 440],
           energies = [1 / 10, 1 / 5], confidence = Some [1, 1]\<rparr>"
proof -
  have r: "plain_reader CHR '','' [''1200'', ''0.5,0.25,69,0.1'', ''1,0.5,57,0.2'']
     = Inr (''1200'' # []) # map Inr [[''0.5'', ''0.25'', ''69'', ''0.1''], [''1'', ''0.5'', ''57'', ''0.2'']]"
    by (simp add: plain_reader_def plain_row_def chomp_def)
  from r load_notes_records [where reader = plain_reader
      and fhandle = "[''1200'', ''0.5,0.25,69,0.1'', ''1,0.5,57,0.2'']"
      and tuning = "''1200''" and others = "[]"
      and lines = "[[''0.5'', ''0.25'', ''69'', ''0.1''], [''1'', ''0.5'', ''57'', ''0.2'']]"
      and c = 1200
      and pyfloat = "map_of [(''1200'', 1200), (''0.5'', 1 / 2), (''0.25'', 1 / 4), (''69'', 69),
              (''0.1'', 1 / 10), (''1'', 1), (''57'', 57), (''0.2'', 1 / 5)]"
      and vals = "[(1 / 2, 1 / 4, 69, 1 / 10), (1, 1 / 2, 57, 1 / 5)]"]
  show ?thesis
    by (simp add: two_powr_5 two_powr_4)
qed

text \<open>
  The same file with a tuning of 0 cents gives the standard frequencies, half of
  those above.
\<close>

lemma load_notes_zero_tuning:
  "load_notes plain_reader
     (map_of [(''0'', 0), (''0.5'', 1 / 2), (''0.25'', 1 / 4), (''69'', 69),
              (''0.1'', 1 / 10), (''1'', 1), (''57'', 57), (''0.2'', 1 / 5)])
     [''0'', ''0.5,0.25,69,0.1'', ''1,0.5,57,0.2'']
   = Inr \<lparr>intervals = [(1 / 2, 3 / 4), (1, 3 / 2)], notes_hz = [440, 220],
           energies = [1 / 10, 1 / 5], confidence = Some [1, 1]\<rparr>"
  by (simp add: load_notes_def plain_reader_def plain_row_def chomp_def getitem_def
      on_success_def float_of_def midi_to_hz_a4 midi_to_hz_a3 init_defs present_simps)


subsection \<open>The TONAS metadata file\<close>

lemma replace_str_skip:
  "old \<noteq> [] \<Longrightarrow> \<not> prefix old (c # cs) \<Longrightarrow>
     replace_str old new (c # cs) = c # replace_str old new cs"
  by simp

lemma no_straddle:
  assumes "\<not> prefix ''.wav'' (c # cs)"
  shows "\<not> prefix ''.wav'' (c # cs @ ''.wav'')"
proof
  assume p: "prefix ''.wav'' (c # cs @ ''.wav'')"
  show False
  proof (cases "3 \<le> length cs")
    case True
    then obtain x y z r where "cs = x # y # z # r"
      by (cases cs; cases "tl cs"; cases "tl (tl cs)") auto
    with p assms show False by simp
  next
    case False
    then consider "cs = []" | x where "cs = [x]" | x y where "cs = [x, y]"
      by (cases cs; cases "tl cs"; cases "tl (tl cs)") auto
    then show False using p by cases auto
  qed
qed

lemma replace_wav_suffix:
  "\<not> sublist ''.wav'' base \<Longrightarrow> replace_str ''.wav'' [] (base @ ''.wav'') = base"
proof (induction base)
  case Nil
  then show ?case by simp
next
  case (Cons c cs)
  from Cons.prems have np: "\<not> prefix ''.wav'' (c # cs)" and ns: "\<not> sublist ''.wav'' cs"
    by (simp_all add: sublist_Cons_right)
  have "replace_str ''.wav'' [] (c # (cs @ ''.wav'')) = c # replace_str ''.wav'' [] (cs @ ''.wav'')"
    by (rule replace_str_skip [OF _ no_straddle [OF np]]) simp
  then show ?case by (simp only: append_Cons Cons.IH [OF ns])
qed




lemma replace_wav_inside: "replace_str ''.wav'' [] ''x.wavy.wav'' = ''xy''"
  by simp




subsection \<open>Missing metadata files\<close>

lemma metadata_paths_loop_missing:
  assumes "subset' \<in> set subsets"
    and "fs (os_path_join home
           [''da-tacos_metadata'', ''da-tacos_'' @ subset' @ ''_subset_metadata.json'']) = None"
  shows "metadata_paths_loop fs home subsets acc = Inl FileNotFoundError"
  using assms by (induction subsets arbitrary: acc) (auto simp: Let_def)

text \<open>
  C8.  When the metadata file is absent the request for the metadata raises
  \<open>FileNotFoundError\<close> (the specification's \<open>NotFoundError\<close>) and returns no
  mapping: for TONAS when \<open>TONAS-Metadata.txt\<close> does not exist, for Da-TACOS when
  either of the two subset files does not exist, whatever the other holds.
\<close>

theorem missing_metadata_raises:
  "(fs (os_path_join home [''TONAS-Metadata.txt'']) = None
      \<longrightarrow> tonas_metadata reader fs home = Inl FileNotFoundError)
   \<and> (fs' (os_path_join home
              [''da-tacos_metadata'', ''da-tacos_benchmark_subset_metadata.json'']) = None
      \<or> fs' (os_path_join home
              [''da-tacos_metadata'', ''da-tacos_coveranalysis_subset_metadata.json'']) = None
      \<longrightarrow> da_tacos_metadata json_load fs' home = Inl FileNotFoundError)"
proof (intro conjI impI)
  assume "fs (os_path_join home [''TONAS-Metadata.txt'']) = None"
  then show "tonas_metadata reader fs home = Inl FileNotFoundError"
    by (simp add: tonas_metadata_def Let_def)
next
  assume "fs' (os_path_join home
              [''da-tacos_metadata'', ''da-tacos_benchmark_subset_metadata.json'']) = None
      \<or> fs' (os_path_join home
              [''da-tacos_metadata'', ''da-tacos_coveranalysis_subset_metadata.json'']) = None"
  then have "metadata_paths_loop fs' home [''benchmark'', ''coveranalysis''] []
      = Inl FileNotFoundError"
    using metadata_paths_loop_missing [of "''benchmark''" "[''benchmark'', ''coveranalysis'']" fs' home "[]"]
      metadata_paths_loop_missing [of "''coveranalysis''" "[''benchmark'', ''coveranalysis'']" fs' home "[]"]
    by auto
  then show "da_tacos_metadata json_load fs' home = Inl FileNotFoundError"
    by (simp add: da_tacos_metadata_def Let_def)
qed

theorem missing_metadata_raises_witness:
  "tonas_metadata plain_reader Map.empty ''/data'' = Inl FileNotFoundError
   \<and> da_tacos_metadata (\<lambda>f. Inr f)
        [''/data/da-tacos_metadata/da-tacos_benchmark_subset_metadata.json'' \<mapsto>
           JObj [(''W_1'', JObj [(''P_1'', JObj [(''instrumental'', JStr ''Yes'')])])]]
        ''/data'' = Inl FileNotFoundError"
proof -
  have p: "os_path_join ''/data''
        [''da-tacos_metadata'', ''da-tacos_coveranalysis_subset_metadata.json'']
      = ''/data/da-tacos_metadata/da-tacos_coveranalysis_subset_metadata.json''"
    by (simp add: os_path_join_def join_step_def)
  show ?thesis
    using missing_metadata_raises [where home = "''/data''" and fs = Map.empty
        and reader = plain_reader and json_load = "\<lambda>f. Inr f"
        and fs' = "[''/data/da-tacos_metadata/da-tacos_benchmark_subset_metadata.json'' \<mapsto>
           JObj [(''W_1'', JObj [(''P_1'', JObj [(''instrumental'', JStr ''Yes'')])])]]"]
    by (simp add: p)
qed

lemma da_tacos_metadata_example:
  "da_tacos_metadata (\<lambda>f. Inr f)
        [''/data/da-tacos_metadata/da-tacos_benchmark_subset_metadata.json'' \<mapsto>
           JObj [(''W_1'', JObj [(''P_1'', JObj [(''instrumental'', JStr ''Yes'')])])],
         ''/data/da-tacos_metadata/da-tacos_coveranalysis_subset_metadata.json'' \<mapsto>
           JObj [(''W_2'', JObj [(''P_3'', JNull)])]]
        ''/data''
    = Inr [''benchmark#W_1#P_1'' \<mapsto> JObj [(''instrumental'', JStr ''Yes'')],
           ''coveranalysis#W_2#P_3'' \<mapsto> JNull]"
  by (simp add: da_tacos_metadata_def os_path_join_def join_step_def Let_def)

subsection \<open>Da-TACOS feature loaders and tracks\<close>

text \<open>
  C6.  When the dictionary stored in the feature file holds the requested key,
  each loader returns the value stored under it, as it is: \<open>load_cens\<close> for
  \<open>chroma_cens\<close>, \<open>load_hpcp\<close> for \<open>hpcp\<close>, \<open>load_key\<close> for \<open>key_extractor\<close>,
  \<open>load_madmom\<close> for \<open>madmom_features\<close>, \<open>load_mfcc\<close> for \<open>mfcc_htk\<close>, \<open>load_tags\<close> for
  \<open>tags\<close>.  Nothing is assumed of the other keys, so they have no influence.
\<close>

theorem feature_loaders_return_stored_value:
  assumes "dd_io_load name = Inr blob"
  shows "(blob ''chroma_cens'' = Some v \<longrightarrow> load_cens dd_io_load name = Inr v)
       \<and> (blob ''hpcp'' = Some v \<longrightarrow> load_hpcp dd_io_load name = Inr v)
       \<and> (blob ''key_extractor'' = Some v \<longrightarrow> load_key dd_io_load name = Inr v)
       \<and> (blob ''madmom_features'' = Some v \<longrightarrow> load_madmom dd_io_load name = Inr v)
       \<and> (blob ''mfcc_htk'' = Some v \<longrightarrow> load_mfcc dd_io_load name = Inr v)
       \<and> (blob ''tags'' = Some v \<longrightarrow> load_tags dd_io_load name = Inr v)"
  using assms
  by (simp add: load_cens_def load_hpcp_def load_key_def load_madmom_def load_mfcc_def
      load_tags_def dict_getitem_def)

theorem feature_loaders_return_stored_value_witness:
  "load_hpcp (\<lambda>name. if name = ''P_1_hpcp.h5''
        then Inr [''hpcp'' \<mapsto> JArr [JArr [JNum 1, JNum 0], JArr [JNum (1 / 2), JNum (1 / 4)]],
                  ''label'' \<mapsto> JStr ''W_1'', ''track_id'' \<mapsto> JStr ''P_1'']
        else Inl FileNotFoundError) ''P_1_hpcp.h5''
     = Inr (JArr [JArr [JNum 1, JNum 0], JArr [JNum (1 / 2), JNum (1 / 4)]])"
  using feature_loaders_return_stored_value
    [where dd_io_load = "\<lambda>name. if name = ''P_1_hpcp.h5''
        then Inr [''hpcp'' \<mapsto> JArr [JArr [JNum 1, JNum 0], JArr [JNum (1 / 2), JNum (1 / 4)]],
                  ''label'' \<mapsto> JStr ''W_1'', ''track_id'' \<mapsto> JStr ''P_1'']
        else Inl FileNotFoundError"
      and name = "''P_1_hpcp.h5''"
      and blob = "[''hpcp'' \<mapsto> JArr [JArr [JNum 1, JNum 0], JArr [JNum (1 / 2), JNum (1 / 4)]],
                  ''label'' \<mapsto> JStr ''W_1'', ''track_id'' \<mapsto> JStr ''P_1'']"
      and v = "JArr [JArr [JNum 1, JNum 0], JArr [JNum (1 / 2), JNum (1 / 4)]]"]
  by simp

text \<open>
  C9.  \<open>Track.is_instrumental\<close> is true exactly when the metadata of the track
  stores the string \<open>Yes\<close> under \<open>instrumental\<close>; the boolean \<open>True\<close>, the string
  \<open>yes\<close> and a missing key all give false.
\<close>

theorem is_instrumental_iff:
  "(is_instrumental track_metadata \<longleftrightarrow> track_metadata ''instrumental'' = Some (JStr ''Yes''))
   \<and> \<not> is_instrumental (track_metadata(''instrumental'' \<mapsto> JBool True))
   \<and> \<not> is_instrumental (track_metadata(''instrumental'' \<mapsto> JStr ''yes''))
   \<and> \<not> is_instrumental (track_metadata(''instrumental'' := None))"
  by (auto simp: is_instrumental_def dict_get_def split: option.splits)

lemma split_on_no_sep: "d \<notin> set s \<Longrightarrow> split_on d acc s = [rev acc @ s]"
  by (induction s arbitrary: acc) auto

lemma split_on_sep:
  "d \<notin> set s \<Longrightarrow> split_on d acc (s @ d # rest) = (rev acc @ s) # split_on d [] rest"
  by (induction s arbitrary: acc) auto

lemma split_str_three:
  assumes "CHR ''#'' \<notin> set s" "CHR ''#'' \<notin> set w" "CHR ''#'' \<notin> set p"
  shows "split_str (s @ ''#'' @ w @ ''#'' @ p) CHR ''#'' = [s, w, p]"
  using assms by (simp add: split_str_def split_on_sep split_on_no_sep)

text \<open>
  C10.  For a subset name, a work id and a performance id without \<open>#\<close>, the
  track built from \<open>subset + "#" + work_id + "#" + performance_id\<close> has exactly
  these three components, and its label is its work id.  The base constructor
  and the path look-ups are assumed not to raise.
\<close>

theorem Track_init_recovers_components:
  assumes "CHR ''#'' \<notin> set s" "CHR ''#'' \<notin> set w" "CHR ''#'' \<notin> set p"
    and "super_init (s @ ''#'' @ w @ ''#'' @ p) = Inr ()"
    and "\<forall>k \<in> {''cens'', ''crema'', ''hpcp'', ''key'', ''madmom'', ''mfcc'', ''tags''}.
           get_path k = Inr (paths k)"
  shows "Track_init super_init get_path (s @ ''#'' @ w @ ''#'' @ p) home
     = Inr \<lparr>track_id = s @ ''#'' @ w @ ''#'' @ p, data_home = home,
             cens_path = paths ''cens'', crema_path = paths ''crema'',
             hpcp_path = paths ''hpcp'', key_path = paths ''key'',
             madmom_path = paths ''madmom'', mfcc_path = paths ''mfcc'',
             tags_path = paths ''tags'',
             track_subset = s, work_id = w, label = w, performance_id = p\<rparr>"
proof -
  have sp: "split_str (s @ ''#'' @ w @ ''#'' @ p) CHR ''#'' = [s, w, p]"
    by (rule split_str_three [OF assms(1-3)])
  show ?thesis
    unfolding Track_init_def sp
    using assms(4,5) by (simp add: on_success_def getitem_def)
qed

theorem Track_init_recovers_components_witness:
  "Track_init (\<lambda>_. Inr ()) (\<lambda>k. Inr (Some (''/data/'' @ k)))
       (''benchmark'' @ ''#'' @ ''W_163992'' @ ''#'' @ ''P_547131'') ''/data''
     = Inr \<lparr>track_id = ''benchmark#W_163992#P_547131'', data_home = ''/data'',
             cens_path = Some ''/data/cens'', crema_path = Some ''/data/crema'',
             hpcp_path = Some ''/data/hpcp'', key_path = Some ''/data/key'',
             madmom_path = Some ''/data/madmom'', mfcc_path = Some ''/data/mfcc'',
             tags_path = Some ''/data/tags'', track_subset = ''benchmark'',
             work_id = ''W_163992'', label = ''W_163992'', performance_id = ''P_547131''\<rparr>"
  using Track_init_recovers_components [where s = "''benchmark''" and w = "''W_163992''"
      and p = "''P_547131''" and super_init = "\<lambda>_. Inr ()"
      and get_path = "\<lambda>k. Inr (Some (''/data/'' @ k))" and paths = "\<lambda>k. Some (''/data/'' @ k)"
      and home = "''/data''"]
  by simp

lemma Track_init_too_few_parts:
  "Track_init (\<lambda>_. Inr ()) (\<lambda>k. Inr None) ''benchmark#W_1'' ''/data'' = Inl IndexError"
  by (simp add: Track_init_def on_success_def getitem_def split_str_def)

text \<open>
  The keys of the Da-TACOS metadata all have the form that \<open>Track.__init__\<close>
  takes apart: a subset name, a work id and a performance id joined by \<open>#\<close>.
\<close>

lemma performance_loop_dom:
  "k \<in> dom (performance_loop s w items md) \<Longrightarrow>
     k \<in> dom md \<or> (\<exists>p. k = s @ ''#'' @ w @ ''#'' @ p)"
proof (induction items arbitrary: md)
  case Nil
  then show ?case by simp
next
  case (Cons it items)
  obtain p v where it: "it = (p, v)" by (cases it) auto
  from Cons.prems
  have "k \<in> dom (performance_loop s w items (md(s @ ''#'' @ w @ ''#'' @ p \<mapsto> v)))"
    by (simp add: it Let_def)
  from Cons.IH [OF this]
  have "k \<in> insert (s @ ''#'' @ w @ ''#'' @ p) (dom md) \<or> (\<exists>p. k = s @ ''#'' @ w @ ''#'' @ p)"
    by (simp only: dom_fun_upd option.simps if_False)
  then show ?case by blast
qed

lemma work_loop_dom:
  "work_loop s items md = Inr md' \<Longrightarrow> k \<in> dom md' \<Longrightarrow>
     k \<in> dom md \<or> (\<exists>w p. k = s @ ''#'' @ w @ ''#'' @ p)"
proof (induction items arbitrary: md)
  case Nil
  then show ?case by simp
next
  case (Cons it items)
  obtain w v where it: "it = (w, v)" by (cases it) auto
  from Cons.prems(1) obtain perfs where v: "v = JObj perfs"
    and rest: "work_loop s items (performance_loop s w perfs md) = Inr md'"
    by (cases v) (simp_all add: it)
  from Cons.IH [OF rest Cons.prems(2)]
  have "k \<in> dom (performance_loop s w perfs md) \<or> (\<exists>w p. k = s @ ''#'' @ w @ ''#'' @ p)" .
  then show ?case using performance_loop_dom [of k s w perfs md] by blast
qed

lemma subset_loop_dom:
  "subset_loop json_load fs sps md = Inr md' \<Longrightarrow> k \<in> dom md' \<Longrightarrow>
     k \<in> dom md \<or> (\<exists>s w p. s \<in> fst ` set sps \<and> k = s @ ''#'' @ w @ ''#'' @ p)"
proof (induction sps arbitrary: md)
  case Nil
  then show ?case by simp
next
  case (Cons sp sps)
  obtain s path where sp: "sp = (s, path)" by (cases sp) auto
  from Cons.prems(1) obtain meta md1 where
    w: "work_loop s meta md = Inr md1" and rest: "subset_loop json_load fs sps md1 = Inr md'"
    by (simp add: sp split: option.splits sum.splits json.splits)
  from Cons.IH [OF rest Cons.prems(2)]
  have "k \<in> dom md1 \<or> (\<exists>s w p. s \<in> fst ` set sps \<and> k = s @ ''#'' @ w @ ''#'' @ p)" .
  then show ?case
  proof
    assume "k \<in> dom md1"
    from work_loop_dom [OF w this] show ?thesis
      by (auto simp: sp)
  next
    assume "\<exists>s w p. s \<in> fst ` set sps \<and> k = s @ ''#'' @ w @ ''#'' @ p"
    then show ?thesis by auto
  qed
qed

lemma da_tacos_metadata_keys:
  assumes "da_tacos_metadata json_load fs home = Inr md" "k \<in> dom md"
  shows "\<exists>s w p. s \<in> {''benchmark'', ''coveranalysis''} \<and> k = s @ ''#'' @ w @ ''#'' @ p"
proof -
  from assms(1) obtain paths where
    "subset_loop json_load fs (zip [''benchmark'', ''coveranalysis''] paths) Map.empty = Inr md"
    by (simp add: da_tacos_metadata_def Let_def split: sum.splits)
  from subset_loop_dom [OF this assms(2)]
  obtain s w p where s: "s \<in> fst ` set (zip [''benchmark'', ''coveranalysis''] paths)"
    and k: "k = s @ ''#'' @ w @ ''#'' @ p" by auto
  from s have "s \<in> set [''benchmark'', ''coveranalysis'']"
    by (auto dest: set_zip_leftD)
  then have "s \<in> {''benchmark'', ''coveranalysis''}" by simp
  with k show ?thesis by blast
qed

end
